theory Spec2Isabelle
  imports Complex_Main "HOL-Library.Monad_Syntax" "HOL-Library.Multiset" "HOL-Library.Word"
begin

unbundle bit_operations_syntax

section \<open>Strings and arrays as the TypeScript code uses them\<close>

text \<open>
  Strings are byte strings: every character the tables use is ASCII, except the flat sign
  of the borrowed numeral, which is kept as its three UTF-8 bytes. The string operations
  below (prefix, suffix, split at an ASCII character, equality) give the same answers on
  the UTF-8 bytes as on the UTF-16 units of the source.
\<close>

definition startsWith :: "string \<Rightarrow> string \<Rightarrow> bool" where
  "startsWith s p = (take (length p) s = p)"

definition endsWith :: "string \<Rightarrow> string \<Rightarrow> bool" where
  "endsWith s p = (length p \<le> length s \<and> drop (length s - length p) s = p)"

fun includesAt :: "string \<Rightarrow> string \<Rightarrow> bool" where
  "includesAt [] p = (p = [])"
| "includesAt (c # cs) p = (startsWith (c # cs) p \<or> includesAt cs p)"

text \<open>\<open>s.split(c)\<close> for a one-character separator.\<close>

fun splitOn :: "char \<Rightarrow> string \<Rightarrow> string \<Rightarrow> string list" where
  "splitOn c cur [] = [cur]"
| "splitOn c cur (x # xs) = (if x = c then cur # splitOn c [] xs else splitOn c (cur @ [x]) xs)"

text \<open>\<open>xs.indexOf(x)\<close>: the first index, or \<open>-1\<close>.\<close>

fun indexOfFrom :: "int \<Rightarrow> 'a list \<Rightarrow> 'a \<Rightarrow> int" where
  "indexOfFrom i [] x = -1"
| "indexOfFrom i (y # ys) x = (if y = x then i else indexOfFrom (i + 1) ys x)"

definition indexOf :: "'a list \<Rightarrow> 'a \<Rightarrow> int" where
  "indexOf xs x = indexOfFrom 0 xs x"

text \<open>
  \<open>xs.sort(cmp)\<close>: the sort of the language is stable, and every comparator of the code
  is a difference of numeric keys. The model inserts each element before the first one
  it must precede, from the right, which keeps equal elements in their original order.
\<close>

fun insertBy :: "('a \<Rightarrow> 'a \<Rightarrow> int) \<Rightarrow> 'a \<Rightarrow> 'a list \<Rightarrow> 'a list" where
  "insertBy cmp x [] = [x]"
| "insertBy cmp x (y # ys) = (if cmp x y \<le> 0 then x # y # ys else y # insertBy cmp x ys)"

definition jsSort :: "('a \<Rightarrow> 'a \<Rightarrow> int) \<Rightarrow> 'a list \<Rightarrow> 'a list" where
  "jsSort cmp xs = foldr (insertBy cmp) xs []"

text \<open>\<open>[...new Set(xs)]\<close>: the first occurrence of each element, in order.\<close>

fun uniqueFrom :: "'a list \<Rightarrow> 'a list \<Rightarrow> 'a list" where
  "uniqueFrom seen [] = []"
| "uniqueFrom seen (x # xs) =
     (if x \<in> set seen then uniqueFrom seen xs else x # uniqueFrom (seen @ [x]) xs)"

definition newSet :: "'a list \<Rightarrow> 'a list" where
  "newSet xs = uniqueFrom [] xs"

text \<open>\<open>v || null\<close> on a string or null: the empty string is falsy.\<close>

definition orNull :: "string option \<Rightarrow> string option" where
  "orNull v = (case v of None \<Rightarrow> None | Some s \<Rightarrow> if s = [] then None else Some s)"

section \<open>The theory tables (src/src/data/theory.ts)\<close>

definition NOTES :: "string list" where
  "NOTES = [''C'', ''C#'', ''D'', ''D#'', ''E'', ''F'', ''F#'', ''G'', ''G#'', ''A'', ''A#'', ''B'']"

type_synonym keyChords = "(string \<times> string) list"

definition majorRow :: "string \<Rightarrow> string \<Rightarrow> string \<Rightarrow> string \<Rightarrow> string \<Rightarrow> string \<Rightarrow> string \<Rightarrow> keyChords" where
  "majorRow c1 c2 c3 c4 c5 c6 c7 =
     [(''I'', c1), (''ii'', c2), (''iii'', c3), (''IV'', c4), (''V'', c5), (''vi'', c6), (''vii'', c7)]"

definition MAJOR_KEYS_DIATONIC :: "(string \<times> keyChords) list" where
  "MAJOR_KEYS_DIATONIC =
    [(''C'',  majorRow ''C'' ''Dm'' ''Em'' ''F'' ''G'' ''Am'' ''Bdim''),
     (''G'',  majorRow ''G'' ''Am'' ''Bm'' ''C'' ''D'' ''Em'' ''F#dim''),
     (''D'',  majorRow ''D'' ''Em'' ''F#m'' ''G'' ''A'' ''Bm'' ''C#dim''),
     (''A'',  majorRow ''A'' ''Bm'' ''C#m'' ''D'' ''E'' ''F#m'' ''G#dim''),
     (''E'',  majorRow ''E'' ''F#m'' ''G#m'' ''A'' ''B'' ''C#m'' ''D#dim''),
     (''B'',  majorRow ''B'' ''C#m'' ''D#m'' ''E'' ''F#'' ''G#m'' ''A#dim''),
     (''F#'', majorRow ''F#'' ''G#m'' ''A#m'' ''B'' ''C#'' ''D#m'' ''Fdim''),
     (''C#'', majorRow ''C#'' ''D#m'' ''Fm'' ''F#'' ''G#'' ''A#m'' ''Cdim''),
     (''Ab'', majorRow ''Ab'' ''Bbm'' ''Cm'' ''Db'' ''Eb'' ''Fm'' ''Gdim''),
     (''Eb'', majorRow ''Eb'' ''Fm'' ''Gm'' ''Ab'' ''Bb'' ''Cm'' ''Ddim''),
     (''Bb'', majorRow ''Bb'' ''Cm'' ''Dm'' ''Eb'' ''F'' ''Gm'' ''Adim''),
     (''F'',  majorRow ''F'' ''Gm'' ''Am'' ''Bb'' ''C'' ''Dm'' ''Edim'')]"

definition minorRow :: "string \<Rightarrow> string \<Rightarrow> string \<Rightarrow> string \<Rightarrow> string \<Rightarrow> string \<Rightarrow> string \<Rightarrow> string \<Rightarrow> keyChords" where
  "minorRow c1 c2 c3 c4 d4 c5 c6 c7 =
     [(''i'', c1), (''ii'', c2), (''III'', c3), (''iv'', c4), (''IV'', d4), (''v'', c5),
      (''VI'', c6), (''VII'', c7)]"

definition MINOR_KEYS_DIATONIC :: "(string \<times> keyChords) list" where
  "MINOR_KEYS_DIATONIC =
    [(''Am'',  minorRow ''Am'' ''Bdim'' ''C'' ''Dm'' ''D'' ''Em'' ''F'' ''G''),
     (''Em'',  minorRow ''Em'' ''F#dim'' ''G'' ''Am'' ''A'' ''Bm'' ''C'' ''D''),
     (''Bm'',  minorRow ''Bm'' ''C#dim'' ''D'' ''Em'' ''E'' ''F#m'' ''G'' ''A''),
     (''F#m'', minorRow ''F#m'' ''G#dim'' ''A'' ''Bm'' ''B'' ''C#m'' ''D'' ''E''),
     (''C#m'', minorRow ''C#m'' ''D#dim'' ''E'' ''F#m'' ''F#'' ''G#m'' ''A'' ''B''),
     (''G#m'', minorRow ''G#m'' ''A#dim'' ''B'' ''C#m'' ''C#'' ''D#m'' ''E'' ''F#''),
     (''D#m'', minorRow ''D#m'' ''Fdim'' ''F#'' ''G#m'' ''G#'' ''A#m'' ''B'' ''C#''),
     (''Bbm'', minorRow ''Bbm'' ''Cdim'' ''Db'' ''Ebm'' ''Eb'' ''Fm'' ''Gb'' ''Ab''),
     (''Fm'',  minorRow ''Fm'' ''Gdim'' ''Ab'' ''Bbm'' ''Bb'' ''Cm'' ''Db'' ''Eb''),
     (''Cm'',  minorRow ''Cm'' ''Ddim'' ''Eb'' ''Fm'' ''F'' ''Gm'' ''Ab'' ''Bb''),
     (''Gm'',  minorRow ''Gm'' ''Adim'' ''Bb'' ''Cm'' ''C'' ''Dm'' ''Eb'' ''F''),
     (''Dm'',  minorRow ''Dm'' ''Edim'' ''F'' ''Gm'' ''G'' ''Am'' ''Bb'' ''C'')]"

text \<open>A transition of the successor tables; an absent \<open>isBorrowed\<close> is falsy.\<close>

record transition =
  to :: string
  weight :: int
  isBorrowed :: bool

definition tr :: "string \<Rightarrow> int \<Rightarrow> transition" where
  "tr r w = \<lparr>to = r, weight = w, isBorrowed = False\<rparr>"

definition trB :: "string \<Rightarrow> int \<Rightarrow> transition" where
  "trB r w = \<lparr>to = r, weight = w, isBorrowed = True\<rparr>"

text \<open>The numeral of the borrowed flat seventh: the flat sign (U+266D) and \<open>VII\<close>.\<close>

definition flatVII :: string where
  "flatVII = [CHR 0xE2, CHR 0x99, CHR 0xAD] @ ''VII''"

type_synonym ruleTable = "(string \<times> transition list) list"

definition PROGRESSION_RULES_MAJOR :: ruleTable where
  "PROGRESSION_RULES_MAJOR =
    [(''I'',   [tr ''I'' 2, tr ''IV'' 8, tr ''V'' 7, tr ''ii'' 6, tr ''vi'' 5, trB ''iv'' 5,
                tr ''V/V'' 4, trB flatVII 4, tr ''iii'' 3, tr ''V/iii'' 3]),
     (''ii'',  [tr ''ii'' 2, tr ''V'' 10, tr ''vii'' 4, tr ''IV'' 2]),
     (''iii'', [tr ''iii'' 2, tr ''vi'' 9, tr ''IV'' 7, tr ''ii'' 4, tr ''V/vi'' 6]),
     (''IV'',  [tr ''IV'' 2, tr ''V'' 9, trB ''iv'' 7, tr ''V/V'' 6, tr ''I'' 5, tr ''ii'' 4]),
     (''V'',   [tr ''V'' 2, tr ''I'' 12, tr ''vi'' 6, tr ''V/ii'' 3, tr ''V/vi'' 3]),
     (''vi'',  [tr ''vi'' 2, tr ''ii'' 8, tr ''IV'' 8, tr ''V'' 5, tr ''V/ii'' 4]),
     (''vii'', [tr ''vii'' 2, tr ''I'' 9, tr ''iii'' 4]),
     (''V/V'',  [tr ''V/V'' 1, tr ''V'' 12]),
     (''V/ii'', [tr ''V/ii'' 1, tr ''ii'' 12]),
     (''V/vi'', [tr ''V/vi'' 1, tr ''vi'' 12]),
     (''V/iii'', [tr ''V/iii'' 1, tr ''iii'' 12]),
     (''iv'',  [tr ''iv'' 2, tr ''I'' 8, tr ''V'' 6]),
     (flatVII, [tr flatVII 2, tr ''I'' 8, tr ''IV'' 6])]"

definition PROGRESSION_RULES_MINOR :: ruleTable where
  "PROGRESSION_RULES_MINOR =
    [(''i'',   [tr ''i'' 2, tr ''VI'' 9, tr ''iv'' 8, tr ''V'' 7, tr ''v'' 6, tr ''VII'' 5,
                tr ''III'' 4, tr ''ii'' 3]),
     (''ii'',  [tr ''ii'' 2, tr ''V'' 10, tr ''v'' 9, tr ''VII'' 5]),
     (''III'', [tr ''III'' 2, tr ''VI'' 9, tr ''iv'' 8]),
     (''iv'',  [tr ''iv'' 2, tr ''V'' 9, tr ''v'' 8, tr ''VII'' 6, tr ''i'' 4]),
     (''v'',   [tr ''v'' 2, tr ''i'' 10, tr ''VI'' 5]),
     (''V'',   [tr ''V'' 2, tr ''i'' 12, tr ''VI'' 6]),
     (''VI'',  [tr ''VI'' 2, tr ''ii'' 8, tr ''iv'' 7, tr ''V'' 6, tr ''v'' 5]),
     (''VII'', [tr ''VII'' 2, tr ''i'' 10, tr ''III'' 8])]"

text \<open>
  The two successor tables are module-level arrays that the code can write to, so they
  are the state that the suggestion function receives and returns.
\<close>

record rules =
  rulesMajor :: ruleTable
  rulesMinor :: ruleTable

definition initialRules :: rules where
  "initialRules = \<lparr>rulesMajor = PROGRESSION_RULES_MAJOR, rulesMinor = PROGRESSION_RULES_MINOR\<rparr>"

section \<open>The harmonic analyser (module \<open>harmonics\<close>, src/unnamed/part_004)\<close>

record chordInfo =
  root :: string
  quality :: string

text \<open>
  \<open>chordName.match(/^([A-G][#b]?)(.*)$/)\<close>: a letter, at most one accidental, and the rest
  of the string, which must hold no line break (the dot does not match one, and the
  pattern is anchored at the end of the input).
\<close>

definition isLineBreak :: "char \<Rightarrow> bool" where
  "isLineBreak c = (c = CHR 0x0A \<or> c = CHR 0x0D)"

definition parseChordName :: "string \<Rightarrow> chordInfo option" where
  "parseChordName chordName =
     (case chordName of
        [] \<Rightarrow> None
      | c # cs \<Rightarrow>
          if c \<in> set ''ABCDEFG'' then
            (let (r, rest) =
                   (case cs of
                      [] \<Rightarrow> ([c], [])
                    | d # ds \<Rightarrow> if d = CHR ''#'' \<or> d = CHR ''b'' then ([c, d], ds) else ([c], cs))
             in if list_ex isLineBreak rest then None
                else Some \<lparr>root = r, quality = rest\<rparr>)
          else None)"

definition harmonicMinorV :: "keyChords \<Rightarrow> string option" where
  "harmonicMinorV minorChords =
     (case orNull (map_of minorChords ''v'') of
        None \<Rightarrow> None
      | Some v_chord \<Rightarrow>
          (case parseChordName v_chord of
             None \<Rightarrow> None
           | Some parsed \<Rightarrow> if quality parsed = ''m'' then Some (root parsed) else None))"

definition realizeRomanNumeral :: "string \<Rightarrow> string \<Rightarrow> string option" where
  "realizeRomanNumeral roman key =
     (if endsWith key ''m'' then
        (case map_of MINOR_KEYS_DIATONIC key of
           None \<Rightarrow> None
         | Some minorChords \<Rightarrow>
             (case (if roman = ''V'' then harmonicMinorV minorChords else None) of
                Some c \<Rightarrow> Some c
              | None \<Rightarrow> orNull (map_of minorChords roman)))
      else
        (case map_of MAJOR_KEYS_DIATONIC key of
           None \<Rightarrow> None
         | Some keyChordsMajor \<Rightarrow>
             if startsWith roman ''V/'' then
               (case splitOn CHR ''/'' [] roman of
                  _ # targetRoman # _ \<Rightarrow>
                    (case orNull (map_of keyChordsMajor targetRoman) of
                       None \<Rightarrow> None
                     | Some targetChordName \<Rightarrow>
                         (case parseChordName targetChordName of
                            None \<Rightarrow> None
                          | Some targetParsed \<Rightarrow>
                              (let targetRootIndex = indexOf NOTES (root targetParsed)
                               in if targetRootIndex = -1 then None
                                  else Some (NOTES ! nat ((targetRootIndex + 7) mod 12)))))
                | _ \<Rightarrow> None)
             else
               (let parallelMinorChords = map_of MINOR_KEYS_DIATONIC (key @ ''m'')
                in if roman = ''iv'' then
                     (case parallelMinorChords of
                        None \<Rightarrow> None | Some pm \<Rightarrow> orNull (map_of pm ''iv''))
                   else if roman = flatVII then
                     (case parallelMinorChords of
                        None \<Rightarrow> None | Some pm \<Rightarrow> orNull (map_of pm ''VII''))
                   else orNull (map_of keyChordsMajor roman))))"

text \<open>\<open>for (const roman in keyChords)\<close>: the first numeral, in table order, whose chord is the given one.\<close>

fun exactMatch :: "keyChords \<Rightarrow> string \<Rightarrow> string option" where
  "exactMatch [] chordName = None"
| "exactMatch ((roman, c) # rest) chordName =
     (if c = chordName then Some roman else exactMatch rest chordName)"

text \<open>The loop over the numerals of the major successor table that are not diatonic.\<close>

fun nonDiatonicMatch :: "keyChords \<Rightarrow> string \<Rightarrow> string \<Rightarrow> string list \<Rightarrow> string option" where
  "nonDiatonicMatch keyChords chordName key [] = None"
| "nonDiatonicMatch keyChords chordName key (func # rest) =
     (if orNull (map_of keyChords func) \<noteq> None then nonDiatonicMatch keyChords chordName key rest
      else
        (let realizedChordName = realizeRomanNumeral func key
         in if realizedChordName = Some chordName then Some func
            else
              (case (parseChordName (case orNull realizedChordName of None \<Rightarrow> [] | Some r \<Rightarrow> r),
                     parseChordName chordName) of
                 (Some parsedRealized, Some parsedCurrent) \<Rightarrow>
                   if root parsedRealized = root parsedCurrent \<and> startsWith func ''V/'' \<and>
                      (quality parsedCurrent = [] \<or> quality parsedCurrent = ''7'')
                   then Some func
                   else nonDiatonicMatch keyChords chordName key rest
               | _ \<Rightarrow> nonDiatonicMatch keyChords chordName key rest)))"

definition findFunctionOfChord :: "rules \<Rightarrow> string \<Rightarrow> string \<Rightarrow> string option" where
  "findFunctionOfChord rs chordName key =
     (if endsWith key ''m'' then
        (case map_of MINOR_KEYS_DIATONIC key of
           None \<Rightarrow> None
         | Some keyChords \<Rightarrow>
             (case exactMatch keyChords chordName of
                Some roman \<Rightarrow> Some roman
              | None \<Rightarrow>
                  (case orNull (map_of keyChords ''v'') of
                     None \<Rightarrow> None
                   | Some v_chord \<Rightarrow>
                       (case (parseChordName v_chord, parseChordName chordName) of
                          (Some parsedV, Some parsedCurrent) \<Rightarrow>
                            if root parsedV = root parsedCurrent \<and>
                               (quality parsedCurrent = [] \<or> quality parsedCurrent = ''7'')
                            then Some ''V'' else None
                        | _ \<Rightarrow> None))))
      else
        (case map_of MAJOR_KEYS_DIATONIC key of
           None \<Rightarrow> None
         | Some keyChords \<Rightarrow>
             (case exactMatch keyChords chordName of
                Some roman \<Rightarrow> Some roman
              | None \<Rightarrow> nonDiatonicMatch keyChords chordName key (map fst (rulesMajor rs)))))"

text \<open>Writing the sorted array back under its numeral: the array was sorted in place.\<close>

fun setRule :: "string \<Rightarrow> transition list \<Rightarrow> ruleTable \<Rightarrow> ruleTable" where
  "setRule k v [] = []"
| "setRule k v ((k', v') # rest) =
     (if k' = k then (k', v) # rest else (k', v') # setRule k v rest)"

text \<open>
  The suggestion function. \<open>Array.prototype.sort\<close> sorts the array it is called on, and
  that array is the entry of the module-level table, so the function returns the table
  state next to its result.
\<close>

definition getCommonProgressions :: "rules \<Rightarrow> string \<Rightarrow> string \<Rightarrow> bool \<Rightarrow> string list \<times> rules" where
  "getCommonProgressions rs fromChord key allowBorrowed =
     (let isMinorKey = endsWith key ''m'';
          progressionRules = (if isMinorKey then rulesMinor rs else rulesMajor rs)
      in case findFunctionOfChord rs fromChord key of
           None \<Rightarrow> ([], rs)
         | Some currentFunction \<Rightarrow>
             if currentFunction = [] then ([], rs)
             else
               (case map_of progressionRules currentFunction of
                  None \<Rightarrow> ([], rs)
                | Some entry \<Rightarrow>
                    (let sorted = jsSort (\<lambda>a b. weight b - weight a) entry;
                         rs' = (if isMinorKey
                                then rs\<lparr>rulesMinor := setRule currentFunction sorted (rulesMinor rs)\<rparr>
                                else rs\<lparr>rulesMajor := setRule currentFunction sorted (rulesMajor rs)\<rparr>);
                         transitions = (if \<not> isMinorKey
                                        then filter (\<lambda>rule. allowBorrowed \<or> \<not> isBorrowed rule) sorted
                                        else sorted);
                         nextChords = map (\<lambda>t. if to t = currentFunction then Some fromChord
                                                 else realizeRomanNumeral (to t) key) transitions
                     in (newSet (concat (map (\<lambda>c. case orNull c of None \<Rightarrow> [] | Some s \<Rightarrow> [s]) nextChords)),
                         rs'))))"

section \<open>The transposer (module \<open>harmonics\<close>, src/unnamed/part_004)\<close>

definition fallbackTranspose :: "string \<Rightarrow> string \<Rightarrow> string \<Rightarrow> string" where
  "fallbackTranspose oldKeyTonic newKeyTonic chord =
     (case (parseChordName oldKeyTonic, parseChordName newKeyTonic) of
        (Some oldKeyParsed, Some newKeyParsed) \<Rightarrow>
          (let oldKeyRootIndex = indexOf NOTES (root oldKeyParsed);
               newKeyRootIndex = indexOf NOTES (root newKeyParsed)
           in if oldKeyRootIndex = -1 \<or> newKeyRootIndex = -1 then chord
              else
                (let interval = newKeyRootIndex - oldKeyRootIndex
                 in case parseChordName chord of
                      None \<Rightarrow> chord
                    | Some parsed \<Rightarrow>
                        (let rootIndex = indexOf NOTES (root parsed)
                         in if rootIndex = -1 then chord
                            else NOTES ! nat ((rootIndex + interval + 12) mod 12) @ quality parsed)))
      | _ \<Rightarrow> chord)"

definition minorToMajorMap :: "(string \<times> string) list" where
  "minorToMajorMap =
     [(''i'', ''I''), (''ii'', ''ii''), (''III'', ''iii''), (''iv'', ''IV''), (''v'', ''V''),
      (''V'', ''V''), (''VI'', ''vi''), (''VII'', ''vii'')]"

definition majorToMinorMap :: "(string \<times> string) list" where
  "majorToMinorMap =
     [(''I'', ''i''), (''ii'', ''ii''), (''iii'', ''III''), (''IV'', ''iv''), (''V'', ''V''),
      (''vi'', ''VI''), (''vii'', ''VII'')]"

definition transposeChordSequence :: "rules \<Rightarrow> string list \<Rightarrow> string \<Rightarrow> string \<Rightarrow> string list" where
  "transposeChordSequence rs sequence oldKey newKey =
     (let oldKeyTonic = (if endsWith oldKey ''m'' then butlast oldKey else oldKey);
          newKeyTonic = (if endsWith newKey ''m'' then butlast newKey else newKey);
          oldKeyIsMinor = endsWith oldKey ''m'';
          newKeyIsMinor = endsWith newKey ''m''
      in if oldKeyIsMinor = newKeyIsMinor
         then map (\<lambda>chord. fallbackTranspose oldKeyTonic newKeyTonic chord) sequence
         else
           map (\<lambda>chord.
                  case orNull (findFunctionOfChord rs chord oldKey) of
                    None \<Rightarrow> fallbackTranspose oldKeyTonic newKeyTonic chord
                  | Some roman \<Rightarrow>
                      (let targetRoman =
                             (case orNull (map_of (if oldKeyIsMinor then minorToMajorMap
                                                   else majorToMinorMap) roman) of
                                None \<Rightarrow> roman | Some r \<Rightarrow> r)
                       in case orNull (realizeRomanNumeral targetRoman newKey) of
                            None \<Rightarrow> fallbackTranspose oldKeyTonic newKeyTonic chord
                          | Some newChord \<Rightarrow> newChord))
               sequence)"

section \<open>Decimal numerals in strings\<close>

definition isDigit :: "char \<Rightarrow> bool" where
  "isDigit c = (c \<in> set ''0123456789'')"

definition parseDec :: "string \<Rightarrow> int" where
  "parseDec ds = foldl (\<lambda>acc c. acc * 10 + indexOf ''0123456789'' c) 0 ds"

fun showNat :: "nat \<Rightarrow> string" where
  "showNat n = (if n < 10 then [''0123456789'' ! n] else showNat (n div 10) @ [''0123456789'' ! (n mod 10)])"

definition showInt :: "int \<Rightarrow> string" where
  "showInt i = (if i < 0 then CHR ''-'' # showNat (nat (- i)) else showNat (nat i))"

section \<open>The voicing resolver (module \<open>harmonics\<close>, src/unnamed/part_004; the tunings at the end of src/src/features/logging.ts)\<close>

datatype error = NoInstrument | TypeError

definition GUITAR_TUNING :: "string list" where
  "GUITAR_TUNING = [''E4'', ''B3'', ''G3'', ''D3'', ''A2'', ''E2'']"

definition UKULELE_TUNING :: "string list" where
  "UKULELE_TUNING = [''A4'', ''E4'', ''C4'', ''G4'']"

text \<open>A fret is a number or the mark \<open>'x'\<close> of a muted string.\<close>

datatype fret = X | Fret int

text \<open>
  A voicing of the catalogue. The resolver and the validator read only \<open>frets\<close>; the
  optional barre records are used for drawing alone.
\<close>

record chordVoicingData =
  frets :: "fret list"

text \<open>
  A catalogue maps a chord symbol to its voicings, in the order the object lists them.
  The catalogues themselves (\<open>data/chords\<close>) are not part of the sources at hand, so
  every function that reads one takes it as a parameter. Tables are looked up by their
  own keys only.
\<close>

type_synonym catalog = "(string \<times> chordVoicingData list) list"

text \<open>An entry of a resolved voicing: \<open>{note, stringIndex}\<close>.\<close>

record chordVoicing =
  vnote :: string
  stringIndex :: int

text \<open>
  \<open>note.match(/([A-G][#b]?)(\d+)/)\<close> at the start of a string: a letter, at most one
  accidental and at least one digit.
\<close>

definition matchNoteHere :: "string \<Rightarrow> (string \<times> string) option" where
  "matchNoteHere s =
     (case s of
        [] \<Rightarrow> None
      | c # cs \<Rightarrow>
          if c \<in> set ''ABCDEFG'' then
            (let (noteName, rest) =
                   (case cs of
                      [] \<Rightarrow> ([c], [])
                    | d # ds \<Rightarrow> if d = CHR ''#'' \<or> d = CHR ''b'' then ([c, d], ds) else ([c], cs));
                 digits = takeWhile isDigit rest
             in if digits = [] then None else Some (noteName, digits))
          else None)"

text \<open>The pattern is not anchored: the first position of the string where it matches.\<close>

fun matchNote :: "string \<Rightarrow> (string \<times> string) option" where
  "matchNote [] = None"
| "matchNote (c # cs) =
     (case matchNoteHere (c # cs) of Some m \<Rightarrow> Some m | None \<Rightarrow> matchNote cs)"

definition noteToMidi :: "string \<Rightarrow> int" where
  "noteToMidi n =
     (case matchNote n of
        None \<Rightarrow> -1
      | Some (noteName, digits) \<Rightarrow>
          (let octave = parseDec digits; noteIndex = indexOf NOTES noteName
           in if noteIndex = -1 then -1 else 12 * (octave + 1) + noteIndex))"

text \<open>
  \<open>midi % 12\<close> takes the sign of \<open>midi\<close>; a negative index reads \<open>undefined\<close> from the
  note table, which the string concatenation prints.
\<close>

definition midiToNote :: "int \<Rightarrow> string" where
  "midiToNote midi =
     (let octave = midi div 12 - 1;
          noteIndex = (if 0 \<le> midi then midi mod 12 else - ((- midi) mod 12))
      in (if 0 \<le> noteIndex then NOTES ! nat noteIndex else ''undefined'') @ showInt octave)"

text \<open>
  The open string is \<open>tuning[stringIndex]\<close>: past the end of the tuning it is \<open>undefined\<close>,
  and calling \<open>match\<close> on it throws a TypeError.
\<close>

definition getNoteFromFret :: "string option \<Rightarrow> int \<Rightarrow> error + string" where
  "getNoteFromFret openStringNote fr =
     (case openStringNote of
        None \<Rightarrow> Inl TypeError
      | Some openNote \<Rightarrow>
          (let startMidi = noteToMidi openNote
           in if startMidi = -1 then Inr [] else Inr (midiToNote (startMidi + fr))))"

definition elemAt :: "'a list \<Rightarrow> int \<Rightarrow> 'a option" where
  "elemAt xs i = (if 0 \<le> i \<and> i < int (length xs) then Some (xs ! nat i) else None)"

text \<open>\<open>fretting.map((fret, stringIndex) => ...).filter(v => v !== null)\<close>, left to right.\<close>

fun frettingNotes :: "string list \<Rightarrow> int \<Rightarrow> fret list \<Rightarrow> error + chordVoicing list" where
  "frettingNotes tuning i [] = Inr []"
| "frettingNotes tuning i (X # rest) = frettingNotes tuning (i + 1) rest"
| "frettingNotes tuning i (Fret n # rest) =
     (case getNoteFromFret (elemAt tuning i) n of
        Inl e \<Rightarrow> Inl e
      | Inr nt \<Rightarrow>
          (case frettingNotes tuning (i + 1) rest of
             Inl e \<Rightarrow> Inl e
           | Inr vs \<Rightarrow> Inr (\<lparr>vnote = nt, stringIndex = i\<rparr> # vs)))"

record catalogs =
  GUITAR_CHORDS :: catalog
  UKULELE_CHORDS :: catalog

definition getVoicingForChord ::
  "catalogs \<Rightarrow> string \<Rightarrow> string \<Rightarrow> int \<Rightarrow> error + chordVoicing list" where
  "getVoicingForChord db chordName instrument voicingIndex =
     (let chordDB = (if instrument = ''guitar'' then GUITAR_CHORDS db else UKULELE_CHORDS db);
          tuning = (if instrument = ''guitar'' then GUITAR_TUNING else UKULELE_TUNING)
      in case map_of chordDB chordName of
           None \<Rightarrow> Inr []
         | Some allVoicings \<Rightarrow>
             if length allVoicings = 0 then Inr []
             else
               (let voicingData = (case elemAt allVoicings voicingIndex of
                                     Some v \<Rightarrow> v | None \<Rightarrow> allVoicings ! 0)
                in frettingNotes tuning 0 (frets voicingData)))"

section \<open>Rhythm patterns (the type declarations in src/src/dom.ts, src/src/data/rhythms.ts)\<close>

datatype beatType = Down | Up | Rest

text \<open>
  A beat lasts a fraction of the measure. The fraction is a floating-point number in the
  source and an exact rational here.
\<close>

record strumBeat =
  beatType :: beatType
  duration :: rat

record patternBase =
  name :: string
  bpm :: int
  beatsPerMeasure :: int
  timeSignature :: string

record strummingPattern = patternBase +
  beats :: "strumBeat list"

record arpeggioPattern = patternBase +
  noteOrder :: "int list"

text \<open>A pattern has \<open>beats\<close> or it has \<open>noteOrder\<close>.\<close>

datatype pattern = Strum strummingPattern | Arpeggio arpeggioPattern

definition asc_44 :: arpeggioPattern where
  "asc_44 = \<lparr>name = ''Ascending'', bpm = 120, beatsPerMeasure = 4, timeSignature = ''4/4'',
             noteOrder = []\<rparr>"

definition basic_4_4 :: strummingPattern where
  "basic_4_4 = \<lparr>name = ''Basic 4/4'', bpm = 120, beatsPerMeasure = 4, timeSignature = ''4/4'',
     beats = [\<lparr>beatType = Down, duration = 1/4\<rparr>, \<lparr>beatType = Down, duration = 1/4\<rparr>,
              \<lparr>beatType = Up, duration = 1/8\<rparr>, \<lparr>beatType = Up, duration = 1/8\<rparr>,
              \<lparr>beatType = Down, duration = 1/8\<rparr>, \<lparr>beatType = Up, duration = 1/8\<rparr>]\<rparr>"

section \<open>Arpeggio playback (module \<open>audio\<close>, second part of src/src/svg.ts)\<close>

text \<open>
  The note order of one arpeggiated chord: the order of the pattern, or, for a scalable
  pattern (empty order), the sounded strings of the voicing sorted by direction. The
  sort is done on a copy of the index list.
\<close>

definition arpeggioNoteOrder :: "arpeggioPattern \<Rightarrow> chordVoicing list \<Rightarrow> int list" where
  "arpeggioNoteOrder pat voicing =
     (let isScalablePattern = (length (noteOrder pat) = 0)
      in if isScalablePattern then
           (let voicedStringIndexes = map stringIndex voicing
            in if includesAt (name pat) ''Ascending''
               then jsSort (\<lambda>a b. b - a) voicedStringIndexes
               else jsSort (\<lambda>a b. a - b) voicedStringIndexes)
         else noteOrder pat)"

text \<open>One call of \<open>player.play(note, atTime, {duration})\<close>.\<close>

record played =
  playedNote :: string
  atTime :: rat
  playedDuration :: rat

text \<open>
  The calls that \<open>playArpeggiatedChord\<close> makes on the player, in order. \<open>ready\<close> stands
  for the guard on the audio context, the player and the node; times are exact
  rationals in place of floating-point seconds.
\<close>

definition playArpeggiatedChord ::
  "bool \<Rightarrow> rat \<Rightarrow> chordVoicing list \<Rightarrow> rat \<Rightarrow> arpeggioPattern \<Rightarrow> played list" where
  "playArpeggiatedChord ready startTime voicing durationSeconds pat =
     (if \<not> ready then []
      else
        (let order = arpeggioNoteOrder pat voicing
         in if length order = 0 then []
            else
              (let noteDuration = durationSeconds / of_nat (length order)
               in concat (map (\<lambda>(i, stringIndexToPlay).
                                 case find (\<lambda>v. stringIndex v = stringIndexToPlay) voicing of
                                   None \<Rightarrow> []
                                 | Some noteInfo \<Rightarrow>
                                     [\<lparr>playedNote = vnote noteInfo,
                                       atTime = startTime + of_nat i * noteDuration,
                                       playedDuration = noteDuration * (3/2)\<rparr>])
                               (enumerate 0 order)))))"

section \<open>The MIDI serialiser (second part of src/src/logger.ts)\<close>

definition NOTE_TO_MIDI_VAL :: "(string \<times> int) list" where
  "NOTE_TO_MIDI_VAL =
     [(''C'', 0), (''C#'', 1), (''Db'', 1), (''D'', 2), (''D#'', 3), (''Eb'', 3), (''E'', 4),
      (''F'', 5), (''F#'', 6), (''Gb'', 6), (''G'', 7), (''G#'', 8), (''Ab'', 8), (''A'', 9),
      (''A#'', 10), (''Bb'', 10), (''B'', 11)]"

definition MIDI_NOTE_ON :: int where "MIDI_NOTE_ON = 0x90"
definition MIDI_NOTE_OFF :: int where "MIDI_NOTE_OFF = 0x80"
definition MIDI_VELOCITY :: int where "MIDI_VELOCITY = 100"

datatype eventType = On | Off

record midiEvent =
  tick :: int
  evType :: eventType
  pitch :: int

record progressionChord =
  chord :: string
  voicingIndex :: int
  strumPatternId :: "string option"
  arpeggioPatternId :: "string option"

text \<open>
  The bitwise operators work on 32-bit two's complement integers: \<open>toInt32\<close> is the
  conversion they apply to their operands. On its range, \<open>>> n\<close> is the floor division by
  \<open>2 ^ n\<close>, and \<open>&\<close>, \<open>|\<close> are the bitwise operations of the integers.
\<close>

definition toInt32 :: "int \<Rightarrow> int" where
  "toInt32 x = (x + 2 ^ 31) mod 2 ^ 32 - 2 ^ 31"

definition writeInt32 :: "int list \<Rightarrow> int \<Rightarrow> int list" where
  "writeInt32 arr v =
     arr @ [(toInt32 v div 2 ^ 24) AND 0xFF, (toInt32 v div 2 ^ 16) AND 0xFF,
            (toInt32 v div 2 ^ 8) AND 0xFF, toInt32 v AND 0xFF]"

definition writeInt16 :: "int list \<Rightarrow> int \<Rightarrow> int list" where
  "writeInt16 arr v = arr @ [(toInt32 v div 2 ^ 8) AND 0xFF, toInt32 v AND 0xFF]"

text \<open>
  The first loop of \<open>writeVarInt\<close>, \<open>while ((value >>= 7) > 0)\<close>, on a value that is
  already a 32-bit integer: it packs the 7-bit groups into \<open>buffer\<close>, low group in the
  high byte, and \<open>buffer <<= 8\<close> wraps at 32 bits.
\<close>

function vlqPack :: "int \<Rightarrow> int \<Rightarrow> int" where
  "vlqPack v buffer =
     (if 0 < v div 128
      then vlqPack (v div 128) (toInt32 (buffer * 256) OR ((v div 128) AND 0x7F OR 0x80))
      else buffer)"
  by pat_completeness auto
termination
  by (relation "measure (\<lambda>(v, buffer). nat v)") auto

declare vlqPack.simps [simp del]

text \<open>
  The second loop, \<open>while (true)\<close>, pushes the bytes of \<open>buffer\<close> until one has its high
  bit clear. A buffer that the first loop has wrapped to a negative number never gets
  there (the arithmetic shift keeps filling with ones), so the loop is a partial
  function: \<open>None\<close> is the run that does not return.
\<close>

partial_function (option) vlqEmit :: "int list \<Rightarrow> int \<Rightarrow> int list option" where
  "vlqEmit arr buffer =
     (if buffer AND 0x80 \<noteq> 0
      then vlqEmit (arr @ [buffer AND 0xFF]) (buffer div 256)
      else Some (arr @ [buffer AND 0xFF]))"

declare vlqEmit.simps [code]

definition writeVarInt :: "int list \<Rightarrow> int \<Rightarrow> int list option" where
  "writeVarInt arr v = vlqEmit arr (vlqPack (toInt32 v) (toInt32 v AND 0x7F))"

text \<open>\<open>note.match(/^([A-G][#b]?)([0-9])$/)\<close> and the lookup of the note value; \<open>None\<close> is null.\<close>

definition midiOfName :: "string \<Rightarrow> char \<Rightarrow> int option" where
  "midiOfName noteName octaveDigit =
     (case map_of NOTE_TO_MIDI_VAL noteName of
        None \<Rightarrow> None
      | Some noteVal \<Rightarrow> Some (12 * (parseDec [octaveDigit] + 1) + noteVal))"

fun noteToMidi_export :: "string \<Rightarrow> int option" where
  "noteToMidi_export [c, d] =
     (if c \<in> set ''ABCDEFG'' \<and> isDigit d then midiOfName [c] d else None)"
| "noteToMidi_export [c, a, d] =
     (if c \<in> set ''ABCDEFG'' \<and> (a = CHR ''#'' \<or> a = CHR ''b'') \<and> isDigit d
      then midiOfName [c, a] d else None)"
| "noteToMidi_export _ = None"

text \<open>
  What the serialiser reads from the rest of the program: the saved instrument, the
  active tempo, the two voicing catalogues, and the pattern library (presets and stored
  custom patterns) behind \<open>getPatternById\<close>.
\<close>

record env =
  savedInstrument :: "string option"
  activeBpm :: int
  chords :: catalogs
  patternLibrary :: "string \<Rightarrow> pattern option"

definition getPatternById :: "env \<Rightarrow> string \<Rightarrow> pattern option" where
  "getPatternById e ident =
     (if ident = [] then None
      else (case savedInstrument e of
              None \<Rightarrow> None
            | Some instrument \<Rightarrow> if instrument = [] then None else patternLibrary e ident))"

text \<open>\<open>Math.round\<close>: the nearest integer, halves upwards.\<close>

definition mathRound :: "rat \<Rightarrow> int" where
  "mathRound x = \<lfloor>x + 1 / 2\<rfloor>"

definition noteOn :: "int \<Rightarrow> int \<Rightarrow> midiEvent" where
  "noteOn t p = \<lparr>tick = t, evType = On, pitch = p\<rparr>"

definition noteOff :: "int \<Rightarrow> int \<Rightarrow> midiEvent" where
  "noteOff t p = \<lparr>tick = t, evType = Off, pitch = p\<rparr>"

text \<open>The note order of an arpeggio in the serialiser; the sorted array is a fresh one.\<close>

definition exportNoteOrder :: "arpeggioPattern \<Rightarrow> chordVoicing list \<Rightarrow> int list" where
  "exportNoteOrder activeArpeggio voicing =
     (let isScalablePattern = (length (noteOrder activeArpeggio) = 0)
      in if isScalablePattern then
           (let voicedStringIndexes = map stringIndex voicing
            in if includesAt (name activeArpeggio) ''Ascending''
               then jsSort (\<lambda>a b. b - a) voicedStringIndexes
               else jsSort (\<lambda>a b. a - b) voicedStringIndexes)
         else noteOrder activeArpeggio)"

text \<open>The events of one arpeggio step; a pitch of 0 is falsy and gives no event.\<close>

definition arpeggioStep :: "int \<Rightarrow> int \<Rightarrow> chordVoicing list \<Rightarrow> nat \<times> int \<Rightarrow> midiEvent list" where
  "arpeggioStep currentTick ticksPerNote voicing step =
     (case step of (i, stringIndexToPlay) \<Rightarrow>
        (case find (\<lambda>v. stringIndex v = stringIndexToPlay) voicing of
           None \<Rightarrow> []
         | Some noteInfo \<Rightarrow>
             (case noteToMidi_export (vnote noteInfo) of
                None \<Rightarrow> []
              | Some p \<Rightarrow>
                  if p = 0 then []
                  else (let startTick = currentTick + int i * ticksPerNote
                        in [noteOn startTick p, noteOff (startTick + ticksPerNote) p]))))"

text \<open>The events of one strummed note: string \<open>i\<close> of the stroke starts \<open>5 i\<close> ticks late.\<close>

definition strumNote :: "int \<Rightarrow> int \<Rightarrow> int \<Rightarrow> nat \<times> int \<Rightarrow> midiEvent list" where
  "strumNote currentTick tickInMeasure beatTicks ip =
     (case ip of (i, p) \<Rightarrow>
        (let strumDelay = int i * 5;
             startTick = currentTick + tickInMeasure + strumDelay
         in [noteOn startTick p, noteOff (startTick + beatTicks - strumDelay) p]))"

fun strumBeats :: "int \<Rightarrow> int \<Rightarrow> int list \<Rightarrow> int \<Rightarrow> strumBeat list \<Rightarrow> midiEvent list" where
  "strumBeats currentTick ticksPerMeasure midiNotes tickInMeasure [] = []"
| "strumBeats currentTick ticksPerMeasure midiNotes tickInMeasure (beat # rest) =
     (let beatTicks = mathRound (duration beat * of_int ticksPerMeasure)
      in (if beatType beat \<noteq> Rest
          then concat (map (strumNote currentTick tickInMeasure beatTicks)
                 (enumerate 0 (if beatType beat = Down then midiNotes else rev midiNotes)))
          else [])
         @ strumBeats currentTick ticksPerMeasure midiNotes (tickInMeasure + beatTicks) rest)"

definition blockNote :: "int \<Rightarrow> int \<Rightarrow> int \<Rightarrow> midiEvent list" where
  "blockNote currentTick ticksPerChord p =
     [noteOn currentTick p, noteOff (currentTick + ticksPerChord) p]"

definition timeDivision :: int where "timeDivision = 480"

text \<open>
  One round of the loop over the progression: the events pushed for the chord and the
  tick counter after it. An empty voicing takes the \<open>continue\<close> at the top of the body.
\<close>

definition chordStep ::
  "env \<Rightarrow> string \<Rightarrow> progressionChord \<Rightarrow> int \<Rightarrow> error + (midiEvent list \<times> int)" where
  "chordStep e instrument progChord currentTick =
     (case getVoicingForChord (chords e) (chord progChord) instrument (voicingIndex progChord) of
        Inl err \<Rightarrow> Inl err
      | Inr voicing \<Rightarrow>
          if length voicing = 0 then Inr ([], currentTick)
          else
            (let strumPattern = (case strumPatternId progChord of
                                   None \<Rightarrow> None | Some i \<Rightarrow> getPatternById e i);
                 arpeggioPattern = (case arpeggioPatternId progChord of
                                      None \<Rightarrow> None | Some i \<Rightarrow> getPatternById e i);
                 activeStrum = (case strumPattern of Some (Strum sp) \<Rightarrow> Some sp | _ \<Rightarrow> None);
                 activeArpeggio = (case arpeggioPattern of Some (Arpeggio ap) \<Rightarrow> Some ap | _ \<Rightarrow> None);
                 midiNotes = List.map_filter (\<lambda>v. noteToMidi_export (vnote v)) voicing
             in case activeArpeggio of
                  Some ap \<Rightarrow>
                    (let order = exportNoteOrder ap voicing;
                         ticksPerMeasure = beatsPerMeasure ap * timeDivision;
                         numNotes = length order
                     in if numNotes = 0 then Inr ([], currentTick)
                        else
                          (let ticksPerNote = ticksPerMeasure div int numNotes
                           in Inr (concat (map (arpeggioStep currentTick ticksPerNote voicing)
                                                (enumerate 0 order)),
                                   currentTick + ticksPerMeasure)))
                | None \<Rightarrow>
                    (case activeStrum of
                       Some sp \<Rightarrow>
                         (let ticksPerMeasure = beatsPerMeasure sp * timeDivision
                          in Inr (strumBeats currentTick ticksPerMeasure midiNotes 0 (beats sp),
                                  currentTick + ticksPerMeasure))
                     | None \<Rightarrow>
                         (let ticksPerChord = timeDivision * 4
                          in Inr (concat (map (blockNote currentTick ticksPerChord) midiNotes),
                                  currentTick + ticksPerChord)))))"

fun collectEvents ::
  "env \<Rightarrow> string \<Rightarrow> progressionChord list \<Rightarrow> int \<Rightarrow> midiEvent list \<Rightarrow> error + midiEvent list" where
  "collectEvents e instrument [] currentTick allMidiEvents = Inr allMidiEvents"
| "collectEvents e instrument (progChord # rest) currentTick allMidiEvents =
     (case chordStep e instrument progChord currentTick of
        Inl err \<Rightarrow> Inl err
      | Inr (evs, currentTick') \<Rightarrow>
          collectEvents e instrument rest currentTick' (allMidiEvents @ evs))"

definition sortByTick :: "midiEvent list \<Rightarrow> midiEvent list" where
  "sortByTick allMidiEvents = jsSort (\<lambda>a b. tick a - tick b) allMidiEvents"

text \<open>The values of \<open>delta\<close> in the loop that writes the events, \<open>lastTick\<close> starting at 0.\<close>

fun deltaTimes :: "int \<Rightarrow> midiEvent list \<Rightarrow> int list" where
  "deltaTimes lastTick [] = []"
| "deltaTimes lastTick (event # rest) = (tick event - lastTick) # deltaTimes (tick event) rest"

fun writeEvents :: "int list \<Rightarrow> (int \<times> midiEvent) list \<Rightarrow> int list option" where
  "writeEvents trackBytes [] = Some trackBytes"
| "writeEvents trackBytes ((delta, event) # rest) =
     (case writeVarInt trackBytes delta of
        None \<Rightarrow> None
      | Some tb \<Rightarrow>
          writeEvents (tb @ [if evType event = On then MIDI_NOTE_ON else MIDI_NOTE_OFF,
                             pitch event, MIDI_VELOCITY]) rest)"

definition trackBytesOf :: "int \<Rightarrow> midiEvent list \<Rightarrow> int list option" where
  "trackBytesOf microsecondsPerQuarter sortedEvents =
     (case writeVarInt [] 0 of
        None \<Rightarrow> None
      | Some tb0 \<Rightarrow>
          (case writeEvents
                  (tb0 @ [0xFF, 0x51, 0x03,
                          (toInt32 microsecondsPerQuarter div 2 ^ 16) AND 0xFF,
                          (toInt32 microsecondsPerQuarter div 2 ^ 8) AND 0xFF,
                          toInt32 microsecondsPerQuarter AND 0xFF])
                  (zip (deltaTimes 0 sortedEvents) sortedEvents) of
             None \<Rightarrow> None
           | Some tb1 \<Rightarrow>
               (case writeVarInt tb1 0 of
                  None \<Rightarrow> None
                | Some tb2 \<Rightarrow> Some (tb2 @ [0xFF, 0x2F, 0x00]))))"

definition charCode :: "char \<Rightarrow> int" where
  "charCode c = of_char c"

text \<open>
  The exported file: \<open>None\<close> when the run does not return, an error when there is no
  instrument or the voicing resolver throws, and the bytes of the \<open>Uint8Array\<close>
  otherwise (the array constructor reduces every number modulo 256).
\<close>

definition exportProgressionToMidi :: "env \<Rightarrow> progressionChord list \<Rightarrow> (error + 8 word list) option" where
  "exportProgressionToMidi e progression =
     (case savedInstrument e of
        None \<Rightarrow> Some (Inl NoInstrument)
      | Some instrument \<Rightarrow>
          if instrument = [] then Some (Inl NoInstrument)
          else
            (let bpm = (if activeBpm e = 0 then 120 else activeBpm e);
                 microsecondsPerQuarter = mathRound (60000000 / of_int bpm)
             in case collectEvents e instrument progression 0 [] of
                  Inl err \<Rightarrow> Some (Inl err)
                | Inr allMidiEvents \<Rightarrow>
                    (case trackBytesOf microsecondsPerQuarter (sortByTick allMidiEvents) of
                       None \<Rightarrow> None
                     | Some trackBytes \<Rightarrow>
                         (let headerBytes = writeInt16 (map charCode ''MThd'' @ [0, 0, 0, 6, 0, 0, 0, 1])
                                                       timeDivision;
                              trackHeader = writeInt32 (map charCode ''MTrk'') (int (length trackBytes))
                          in Some (Inr (map word_of_int (headerBytes @ trackHeader @ trackBytes)))))))"

section \<open>The catalogue validator (module \<open>chord-validator\<close>, src/unnamed/part_000)\<close>
























section \<open>Sample data for the examples\<close>

text \<open>
  A small catalogue in the format of the voicing tables, frets listed from the high
  string down: the open C and Dm shapes of the guitar, the C shape at the twelfth fret
  (E5, C5, G4, E4, C4), a G entry that lacks a string, and the C shape of the ukulele.
\<close>

definition sampleCatalogs :: catalogs where
  "sampleCatalogs =
     \<lparr>GUITAR_CHORDS =
        [(''C'', [\<lparr>frets = [Fret 0, Fret 1, Fret 0, Fret 2, Fret 3, X]\<rparr>,
                  \<lparr>frets = [Fret 12, Fret 13, Fret 12, Fret 14, Fret 15, X]\<rparr>]),
         (''Dm'', [\<lparr>frets = [Fret 1, Fret 3, Fret 2, Fret 0, X, X]\<rparr>]),
         (''G'', [\<lparr>frets = [Fret 3, Fret 0, Fret 0, Fret 0, Fret 2]\<rparr>])],
      UKULELE_CHORDS = [(''C'', [\<lparr>frets = [Fret 3, Fret 0, Fret 0, Fret 0]\<rparr>])]\<rparr>"

definition samplePatterns :: "string \<Rightarrow> pattern option" where
  "samplePatterns ident =
     (if ident = ''asc-44'' then Some (Arpeggio asc_44)
      else if ident = ''basic-4-4'' then Some (Strum basic_4_4)
      else None)"

definition sampleEnv :: env where
  "sampleEnv = \<lparr>savedInstrument = Some ''guitar'', activeBpm = 120, chords = sampleCatalogs,
                patternLibrary = samplePatterns\<rparr>"

definition blockChord :: "string \<Rightarrow> int \<Rightarrow> progressionChord" where
  "blockChord c vi = \<lparr>chord = c, voicingIndex = vi, strumPatternId = None, arpeggioPatternId = None\<rparr>"

section \<open>Vocabulary of the statements\<close>

text \<open>The keys of the diatonic tables, and the numerals of a key: those of its table row, and \<open>V\<close> in minor.\<close>

definition supportedKeys :: "string list" where
  "supportedKeys = map fst MAJOR_KEYS_DIATONIC @ map fst MINOR_KEYS_DIATONIC"

definition diatonicRomans :: "string \<Rightarrow> string list" where
  "diatonicRomans key =
     (if endsWith key ''m''
      then (case map_of MINOR_KEYS_DIATONIC key of None \<Rightarrow> [] | Some row \<Rightarrow> map fst row @ [''V''])
      else (case map_of MAJOR_KEYS_DIATONIC key of None \<Rightarrow> [] | Some row \<Rightarrow> map fst row))"

text \<open>A check that runs on the tables: the numeral realises to a chord that analyses back to it.\<close>

definition roundTrips :: "string \<Rightarrow> string \<Rightarrow> bool" where
  "roundTrips key roman =
     (case realizeRomanNumeral roman key of
        None \<Rightarrow> False
      | Some c \<Rightarrow>
          findFunctionOfChord initialRules c key = Some roman \<and>
          (endsWith key ''m'' \<or>
           (case map_of MAJOR_KEYS_DIATONIC key of
              None \<Rightarrow> False | Some row \<Rightarrow> exactMatch row c \<noteq> None)))"






section \<open>The sort of the language on the comparators of the code\<close>

lemma insertBy_desc_weight:
  "insertBy (\<lambda>a b. weight b - weight a) x ys = insort_key (\<lambda>t. - weight t) x ys"
  by (induction ys) auto

lemma jsSort_desc_weight:
  "jsSort (\<lambda>a b. weight b - weight a) ts = sort_key (\<lambda>t. - weight t) ts"
  by (induction ts) (simp_all add: jsSort_def insertBy_desc_weight)

lemma jsSort_desc_weight_sorted:
  "sorted_wrt (\<lambda>a b. weight b \<le> weight a) (jsSort (\<lambda>a b. weight b - weight a) ts)"
proof -
  have "sorted (map (\<lambda>t. - weight t) (sort_key (\<lambda>t. - weight t) ts))"
    by (rule sorted_sort_key)
  then show ?thesis
    by (simp add: jsSort_desc_weight sorted_map)
qed

lemma jsSort_desc_weight_stable:
  "filter (\<lambda>t. weight t = w) (jsSort (\<lambda>a b. weight b - weight a) ts)
     = filter (\<lambda>t. weight t = w) ts"
proof -
  have "filter (\<lambda>t. - weight t = - w) (sort_key (\<lambda>t. - weight t) ts)
          = filter (\<lambda>t. - weight t = - w) ts"
    by (rule sort_key_stable)
  then show ?thesis by (simp add: jsSort_desc_weight)
qed

section \<open>Realising and analysing numerals\<close>

lemma findFunction_minor_rules:
  "endsWith key ''m'' \<Longrightarrow>
   findFunctionOfChord rs chordName key = findFunctionOfChord initialRules chordName key"
  by (simp add: findFunctionOfChord_def)

lemma all_round_trips:
  "list_all (\<lambda>key. list_all (roundTrips key) (diatonicRomans key)) supportedKeys"
  by code_simp

lemma findFunction_exact_rules:
  "\<not> endsWith key ''m'' \<Longrightarrow> map_of MAJOR_KEYS_DIATONIC key = Some row \<Longrightarrow>
   exactMatch row c \<noteq> None \<Longrightarrow>
   findFunctionOfChord rs c key = findFunctionOfChord initialRules c key"
  by (auto simp add: findFunctionOfChord_def)

lemma roundTrips_any_rules:
  assumes "roundTrips key roman"
  shows "\<exists>c. realizeRomanNumeral roman key = Some c \<and> findFunctionOfChord rs c key = Some roman"
proof -
  from assms obtain c where c: "realizeRomanNumeral roman key = Some c"
    and f: "findFunctionOfChord initialRules c key = Some roman"
    and m: "endsWith key ''m'' \<or>
           (case map_of MAJOR_KEYS_DIATONIC key of
              None \<Rightarrow> False | Some row \<Rightarrow> exactMatch row c \<noteq> None)"
    by (auto simp: roundTrips_def split: option.splits)
  have "findFunctionOfChord rs c key = findFunctionOfChord initialRules c key"
  proof (cases "endsWith key ''m''")
    case True
    then show ?thesis by (rule findFunction_minor_rules)
  next
    case False
    with m obtain row where "map_of MAJOR_KEYS_DIATONIC key = Some row" "exactMatch row c \<noteq> None"
      by (auto split: option.splits)
    with False show ?thesis by (rule findFunction_exact_rules)
  qed
  with c f show ?thesis by simp
qed

text \<open>
  C2. For every key of the diatonic tables and every numeral of that key (the numerals
  of its table row, and \<open>V\<close> in a minor key), the numeral realises to a chord, and that
  chord analyses back to the same numeral, whatever the state of the successor tables.
\<close>

theorem C2_realize_then_analyse:
  assumes "key \<in> set supportedKeys" and "roman \<in> set (diatonicRomans key)"
  shows "\<exists>c. realizeRomanNumeral roman key = Some c \<and> findFunctionOfChord rs c key = Some roman"
proof -
  from all_round_trips assms have "roundTrips key roman"
    by (auto simp: list_all_iff)
  then show ?thesis by (rule roundTrips_any_rules)
qed

text \<open>C2 at the harmonic-minor dominant of A minor: \<open>V\<close> realises to E, and E analyses to \<open>V\<close>.\<close>

theorem C2_realize_then_analyse_witness:
  "''Am'' \<in> set supportedKeys \<and> ''V'' \<in> set (diatonicRomans ''Am'')
   \<and> realizeRomanNumeral ''V'' ''Am'' = Some ''E''
   \<and> findFunctionOfChord initialRules ''E'' ''Am'' = Some ''V''"
proof -
  have k: "''Am'' \<in> set supportedKeys" by code_simp
  have r: "''V'' \<in> set (diatonicRomans ''Am'')" by code_simp
  have e: "realizeRomanNumeral ''V'' ''Am'' = Some ''E''" by code_simp
  from C2_realize_then_analyse[OF k r, of initialRules] e k r show ?thesis by simp
qed

section \<open>Successor suggestions\<close>

lemma suggest_from_C:
  "fst (getCommonProgressions initialRules ''C'' ''C'' False) =
     [''F'', ''G'', ''Dm'', ''Am'', ''D'', ''Em'', ''B'', ''C'']"
  by code_simp

text \<open>
  C1. From the chord C in the key of C major, borrowed chords not allowed, the
  suggestions are F, G, Dm, Am, D, Em, B, C: no chord twice, the first four are F, G, Dm,
  Am in this order, and the self-loop chord C comes after them. The sort that orders the
  transitions puts larger weights first, and keeps transitions of equal weight in the
  order they had in the table.
\<close>

theorem C1_suggest_from_C_in_C_major:
  "fst (getCommonProgressions initialRules ''C'' ''C'' False) =
     [''F'', ''G'', ''Dm'', ''Am'', ''D'', ''Em'', ''B'', ''C'']
   \<and> distinct (fst (getCommonProgressions initialRules ''C'' ''C'' False))
   \<and> take 4 (fst (getCommonProgressions initialRules ''C'' ''C'' False))
       = [''F'', ''G'', ''Dm'', ''Am'']
   \<and> ''C'' \<in> set (drop 4 (fst (getCommonProgressions initialRules ''C'' ''C'' False)))
   \<and> (\<forall>ts. sorted_wrt (\<lambda>a b. weight b \<le> weight a) (jsSort (\<lambda>a b. weight b - weight a) ts))
   \<and> (\<forall>ts w. filter (\<lambda>t. weight t = w) (jsSort (\<lambda>a b. weight b - weight a) ts)
               = filter (\<lambda>t. weight t = w) ts)"
  unfolding suggest_from_C
  by (simp add: jsSort_desc_weight_sorted jsSort_desc_weight_stable)

text \<open>
  C9. The suggestion function sorts the table entry of the current function in place.
  After one call from C in C major the entry of \<open>I\<close> in the major table is in descending
  weight order, no longer in the order in which the table was written, so the table
  state after the call differs from the state before it.
\<close>

theorem C9_sort_reorders_table:
  "map_of (rulesMajor (snd (getCommonProgressions initialRules ''C'' ''C'' False))) ''I'' =
     Some [tr ''IV'' 8, tr ''V'' 7, tr ''ii'' 6, tr ''vi'' 5, trB ''iv'' 5, tr ''V/V'' 4,
           trB flatVII 4, tr ''iii'' 3, tr ''V/iii'' 3, tr ''I'' 2]
   \<and> map_of (rulesMajor initialRules) ''I'' =
     Some [tr ''I'' 2, tr ''IV'' 8, tr ''V'' 7, tr ''ii'' 6, tr ''vi'' 5, trB ''iv'' 5,
           tr ''V/V'' 4, trB flatVII 4, tr ''iii'' 3, tr ''V/iii'' 3]
   \<and> snd (getCommonProgressions initialRules ''C'' ''C'' False) \<noteq> initialRules"
  by code_simp

section \<open>Transposition\<close>

lemma same_mode_transpose:
  "endsWith oldKey ''m'' = endsWith newKey ''m'' \<Longrightarrow>
   transposeChordSequence rs sequence oldKey newKey =
   map (fallbackTranspose (if endsWith oldKey ''m'' then butlast oldKey else oldKey)
                          (if endsWith newKey ''m'' then butlast newKey else newKey)) sequence"
  by (simp add: transposeChordSequence_def Let_def)

text \<open>
  C4. Between keys of the same mode the transposer shifts sharp-spelled roots, but a
  flat-spelled root or key tonic is not found in the note table and the chord is returned
  as it was: from F major to G major the chord Bb stays Bb (while A# becomes C), and from
  Ab major to C major nothing moves.
\<close>

theorem C4_flat_spellings_not_shifted:
  "transposeChordSequence rs [''F'', ''Bb'', ''C''] ''F'' ''G'' = [''G'', ''Bb'', ''D'']
   \<and> transposeChordSequence rs [''C'', ''F'', ''G''] ''Ab'' ''C'' = [''C'', ''F'', ''G'']
   \<and> transposeChordSequence rs [''F'', ''A#'', ''C''] ''F'' ''G'' = [''G'', ''C'', ''D'']"
proof -
  have m: "endsWith ''F'' ''m'' = endsWith ''G'' ''m''"
          "endsWith ''Ab'' ''m'' = endsWith ''C'' ''m''"
    by (simp_all add: endsWith_def)
  show ?thesis
    unfolding same_mode_transpose[OF m(1)] same_mode_transpose[OF m(2)]
    by code_simp
qed

lemma transpose_from_minor_rules:
  "endsWith oldKey ''m'' \<Longrightarrow>
   transposeChordSequence rs sequence oldKey newKey =
   transposeChordSequence initialRules sequence oldKey newKey"
  unfolding transposeChordSequence_def
  by (simp add: findFunction_minor_rules[of oldKey rs])

lemma Am_is_minor: "endsWith ''Am'' ''m''"
  by (simp add: endsWith_def)

text \<open>
  C5, as stated: the transposition of Am, F, C, G from A minor to C major is not
  C, Dm, Em, G.
\<close>

theorem C5_claimed_result_not_returned:
  "transposeChordSequence initialRules [''Am'', ''F'', ''C'', ''G''] ''Am'' ''C''
     \<noteq> [''C'', ''Dm'', ''Em'', ''G'']"
  by code_simp

text \<open>
  C5, amended. The transposition of Am, F, C, G from A minor to C major is C, Am, Em,
  Bdim: the chords have the functions i, VI, III, VII in A minor, the cross-mode table
  sends these to I, vi, iii, vii, and these are C, Am, Em, Bdim in C major. A chord with
  no function in the old key, such as F#m in A minor, is shifted chromatically (to Am).
\<close>

theorem C5_cross_mode_by_function:
  "transposeChordSequence rs [''Am'', ''F'', ''C'', ''G''] ''Am'' ''C''
     = [''C'', ''Am'', ''Em'', ''Bdim'']
   \<and> map (\<lambda>c. findFunctionOfChord rs c ''Am'') [''Am'', ''F'', ''C'', ''G'']
       = [Some ''i'', Some ''VI'', Some ''III'', Some ''VII'']
   \<and> map (map_of minorToMajorMap) [''i'', ''VI'', ''III'', ''VII'']
       = [Some ''I'', Some ''vi'', Some ''iii'', Some ''vii'']
   \<and> map (\<lambda>r. realizeRomanNumeral r ''C'') [''I'', ''vi'', ''iii'', ''vii'']
       = [Some ''C'', Some ''Am'', Some ''Em'', Some ''Bdim'']
   \<and> findFunctionOfChord rs ''F#m'' ''Am'' = None
   \<and> transposeChordSequence rs [''F#m''] ''Am'' ''C'' = [fallbackTranspose ''A'' ''C'' ''F#m'']
   \<and> fallbackTranspose ''A'' ''C'' ''F#m'' = ''Am''"
  unfolding transpose_from_minor_rules[OF Am_is_minor, of rs]
    findFunction_minor_rules[OF Am_is_minor, of rs]
  by code_simp

section \<open>Scalable arpeggios\<close>

lemma guitar_open_strings:
  "map (\<lambda>i. getNoteFromFret (elemAt GUITAR_TUNING i) 0) [0, 1, 2, 3, 4, 5]
     = [Inr ''E4'', Inr ''B3'', Inr ''G3'', Inr ''D3'', Inr ''A2'', Inr ''E2'']"
  by code_simp

lemma guitar_string_midi:
  "map (\<lambda>i. map_option noteToMidi (elemAt GUITAR_TUNING i)) [0, 1, 2, 3, 4, 5]
     = [Some 64, Some 59, Some 55, Some 50, Some 45, Some 40]"
  by code_simp

lemma guitar_fret_notes:
  "getNoteFromFret (elemAt GUITAR_TUNING 0) f = Inr (midiToNote (64 + f))"
  "getNoteFromFret (elemAt GUITAR_TUNING 1) f = Inr (midiToNote (59 + f))"
  "getNoteFromFret (elemAt GUITAR_TUNING 2) f = Inr (midiToNote (55 + f))"
  "getNoteFromFret (elemAt GUITAR_TUNING 3) f = Inr (midiToNote (50 + f))"
  using guitar_string_midi
  by (auto simp: getNoteFromFret_def Let_def split: option.splits)

lemma desc_sort_0123: "jsSort (\<lambda>a b. b - a) [0, 1, 2, 3 :: int] = [3, 2, 1, 0]"
  by (simp add: jsSort_def)

text \<open>
  C6. For a guitar voicing of Dm with the two low strings muted and a scalable pattern
  whose name contains "Ascending", the resolved voicing sounds the strings 0, 1, 2, 3 and
  the note order is 3, 2, 1, 0, in the playback scheduler and in the serialiser alike;
  the scheduler plays the notes of the voicing from the last to the first.
\<close>

theorem C6_ascending_on_partial_voicing:
  assumes cat: "map_of (GUITAR_CHORDS db) ''Dm'' = Some (v # others)"
    and fr: "frets v = [Fret f0, Fret f1, Fret f2, Fret f3, X, X]"
    and scalable: "noteOrder pat = []"
    and asc: "includesAt (name pat) ''Ascending''"
  shows "\<exists>voicing. getVoicingForChord db ''Dm'' ''guitar'' 0 = Inr voicing
           \<and> map stringIndex voicing = [0, 1, 2, 3]
           \<and> arpeggioNoteOrder pat voicing = [3, 2, 1, 0]
           \<and> exportNoteOrder pat voicing = [3, 2, 1, 0]
           \<and> map playedNote (playArpeggiatedChord True t0 voicing d pat) = rev (map vnote voicing)"
proof -
  let ?voicing = "[\<lparr>vnote = midiToNote (64 + f0), stringIndex = 0\<rparr>,
                   \<lparr>vnote = midiToNote (59 + f1), stringIndex = 1\<rparr>,
                   \<lparr>vnote = midiToNote (55 + f2), stringIndex = 2\<rparr>,
                   \<lparr>vnote = midiToNote (50 + f3), stringIndex = 3\<rparr>]"
  have g: "getVoicingForChord db ''Dm'' ''guitar'' 0 = Inr ?voicing"
    by (simp add: getVoicingForChord_def cat fr elemAt_def[of "v # others"] guitar_fret_notes)
  have o1: "arpeggioNoteOrder pat ?voicing = [3, 2, 1, 0]"
    by (simp add: arpeggioNoteOrder_def scalable asc desc_sort_0123)
  have o2: "exportNoteOrder pat ?voicing = [3, 2, 1, 0]"
    by (simp add: exportNoteOrder_def scalable asc desc_sort_0123)
  have p: "map playedNote (playArpeggiatedChord True t0 ?voicing d pat) = rev (map vnote ?voicing)"
    by (simp add: playArpeggiatedChord_def o1 enumerate_eq_zip upt_rec)
  from g o1 o2 p show ?thesis by simp
qed

text \<open>C6 on the open Dm shape and the preset \<open>asc-44\<close>.\<close>

theorem C6_ascending_on_partial_voicing_witness:
  "map_of (GUITAR_CHORDS sampleCatalogs) ''Dm'' = Some [\<lparr>frets = [Fret 1, Fret 3, Fret 2, Fret 0, X, X]\<rparr>]
   \<and> noteOrder asc_44 = [] \<and> includesAt (name asc_44) ''Ascending''
   \<and> (\<exists>voicing. getVoicingForChord sampleCatalogs ''Dm'' ''guitar'' 0 = Inr voicing
           \<and> map stringIndex voicing = [0, 1, 2, 3]
           \<and> arpeggioNoteOrder asc_44 voicing = [3, 2, 1, 0]
           \<and> exportNoteOrder asc_44 voicing = [3, 2, 1, 0]
           \<and> map playedNote (playArpeggiatedChord True 0 voicing 2 asc_44) = rev (map vnote voicing))"
proof -
  have c: "map_of (GUITAR_CHORDS sampleCatalogs) ''Dm'' = Some [\<lparr>frets = [Fret 1, Fret 3, Fret 2, Fret 0, X, X]\<rparr>]"
    by code_simp
  have f: "frets \<lparr>frets = [Fret 1, Fret 3, Fret 2, Fret 0, X, X]\<rparr> = [Fret 1, Fret 3, Fret 2, Fret 0, X, X]"
    by simp
  have s: "noteOrder asc_44 = []" by (simp add: asc_44_def)
  have a: "includesAt (name asc_44) ''Ascending''" by code_simp
  from C6_ascending_on_partial_voicing[OF c f s a, of 0 2] c s a show ?thesis by simp
qed

lemma sample_Dm_notes:
  "getVoicingForChord sampleCatalogs ''Dm'' ''guitar'' 0 =
     Inr [\<lparr>vnote = ''F4'', stringIndex = 0\<rparr>, \<lparr>vnote = ''D4'', stringIndex = 1\<rparr>,
          \<lparr>vnote = ''A3'', stringIndex = 2\<rparr>, \<lparr>vnote = ''D3'', stringIndex = 3\<rparr>]"
  by code_simp

section \<open>Chords without a voicing in the serialiser\<close>

lemma chordStep_empty_voicing:
  "getVoicingForChord (chords e) (chord progChord) instrument (voicingIndex progChord) = Inr [] \<Longrightarrow>
   chordStep e instrument progChord t = Inr ([], t)"
  by (simp add: chordStep_def)

lemma collectEvents_skip:
  assumes "getVoicingForChord (chords e) (chord progChord) instrument (voicingIndex progChord) = Inr []"
  shows "collectEvents e instrument (before @ progChord # after) t acc
           = collectEvents e instrument (before @ after) t acc"
proof (induction before arbitrary: t acc)
  case Nil
  show ?case by (simp add: chordStep_empty_voicing[OF assms])
next
  case (Cons b before)
  show ?case by (simp add: Cons.IH split: sum.splits prod.splits)
qed

text \<open>
  C7, amended. A progression entry whose chord resolves to no voicing is skipped: it adds
  no event and leaves the tick counter where it was, so the events and the file are those
  of the progression without the entry.
\<close>

theorem C7_unresolved_chord_is_skipped:
  assumes "getVoicingForChord (chords e) (chord progChord) instrument (voicingIndex progChord) = Inr []"
  shows "chordStep e instrument progChord t = Inr ([], t)
       \<and> collectEvents e instrument (before @ progChord # after) t0 acc
           = collectEvents e instrument (before @ after) t0 acc
       \<and> (savedInstrument e = Some instrument \<longrightarrow>
            exportProgressionToMidi e (before @ progChord # after)
              = exportProgressionToMidi e (before @ after))"
  using chordStep_empty_voicing[OF assms] collectEvents_skip[OF assms]
  by (simp add: exportProgressionToMidi_def)

text \<open>
  C7, as stated: after an entry with an unknown chord quality the tick counter has not
  advanced, and the block chord that follows starts at tick 0 and ends at tick 1920.
\<close>

theorem C7_tick_counter_does_not_advance:
  "getVoicingForChord (chords sampleEnv) ''Csus9'' ''guitar'' 0 = Inr []
   \<and> chordStep sampleEnv ''guitar'' (blockChord ''Csus9'' 0) 0 = Inr ([], 0)
   \<and> map_sum id (map tick) (collectEvents sampleEnv ''guitar'' [blockChord ''Csus9'' 0, blockChord ''C'' 0] 0 [])
       = Inr [0, 1920, 0, 1920, 0, 1920, 0, 1920, 0, 1920]"
  by code_simp

text \<open>C7, amended, on the sample catalogue: Csus9 has no voicing between Dm and C.\<close>

theorem C7_unresolved_chord_is_skipped_witness:
  "getVoicingForChord (chords sampleEnv) (chord (blockChord ''Csus9'' 0)) ''guitar''
       (voicingIndex (blockChord ''Csus9'' 0)) = Inr []
   \<and> chordStep sampleEnv ''guitar'' (blockChord ''Csus9'' 0) 480 = Inr ([], 480)
   \<and> collectEvents sampleEnv ''guitar'' ([blockChord ''Dm'' 0] @ blockChord ''Csus9'' 0 # [blockChord ''C'' 0]) 0 []
       = collectEvents sampleEnv ''guitar'' ([blockChord ''Dm'' 0] @ [blockChord ''C'' 0]) 0 []
   \<and> savedInstrument sampleEnv = Some ''guitar''
   \<and> exportProgressionToMidi sampleEnv ([blockChord ''Dm'' 0] @ blockChord ''Csus9'' 0 # [blockChord ''C'' 0])
       = exportProgressionToMidi sampleEnv ([blockChord ''Dm'' 0] @ [blockChord ''C'' 0])"
proof -
  have i: "savedInstrument sampleEnv = Some ''guitar''" by (simp add: sampleEnv_def)
  have h: "getVoicingForChord (chords sampleEnv) (chord (blockChord ''Csus9'' 0)) ''guitar''
       (voicingIndex (blockChord ''Csus9'' 0)) = Inr []"
    by code_simp
  from C7_unresolved_chord_is_skipped[OF h, of 480 "[blockChord ''Dm'' 0]" "[blockChord ''C'' 0]" 0 "[]"] h i
  show ?thesis by (simp del: append.simps)
qed

section \<open>The validator and the resolver\<close>













section \<open>The bytes of a single block chord\<close>

lemma writeVarInt_zero: "writeVarInt arr 0 = Some (arr @ [0])"
proof -
  have p: "vlqPack 0 0 = 0" by (subst vlqPack.simps) simp
  have e: "vlqEmit arr 0 = Some (arr @ [0])" by (subst vlqEmit.simps) simp
  show ?thesis by (simp add: writeVarInt_def toInt32_def p e)
qed

lemma writeVarInt_whole_note: "writeVarInt arr 1920 = Some (arr @ [0x8F, 0])"
proof -
  have t: "toInt32 1920 = 1920" "toInt32 0 = 0" by (simp_all add: toInt32_def)
  have a: "(1920::int) AND 127 = 0" "(15::int) AND 127 OR 128 = 143"
    "(143::int) AND 128 = 128" "(143::int) AND 255 = 143" by simp_all
  have p2: "vlqPack 15 143 = 143" by (subst vlqPack.simps) simp
  have p: "vlqPack 1920 0 = 143"
    by (subst vlqPack.simps) (simp add: t a p2)
  have e2: "vlqEmit (arr @ [143]) 0 = Some ((arr @ [143]) @ [0])" by (subst vlqEmit.simps) simp
  have e: "vlqEmit arr 143 = Some (arr @ [143, 0])"
    by (subst vlqEmit.simps) (simp add: a e2)
  show ?thesis by (simp add: writeVarInt_def t a p e)
qed

lemma map_filter_all_Some:
  "\<forall>x\<in>set xs. f x \<noteq> None \<Longrightarrow> List.map_filter f xs = map (\<lambda>x. the (f x)) xs"
  by (induction xs) (auto simp: List.map_filter_simps)

lemma block_sorted:
  "sortByTick (blockNote 0 1920 p1 @ blockNote 0 1920 p2 @ blockNote 0 1920 p3 @
               blockNote 0 1920 p4 @ blockNote 0 1920 p5) =
     [noteOn 0 p1, noteOn 0 p2, noteOn 0 p3, noteOn 0 p4, noteOn 0 p5,
      noteOff 1920 p1, noteOff 1920 p2, noteOff 1920 p3, noteOff 1920 p4, noteOff 1920 p5]"
  by (simp add: sortByTick_def jsSort_def blockNote_def noteOn_def noteOff_def)

lemma tempo_120: "mathRound 500000 = 500000"
  by code_simp

lemma chunk_names: "map charCode ''MThd'' = [0x4D, 0x54, 0x68, 0x64]"
  "map charCode ''MTrk'' = [0x4D, 0x54, 0x72, 0x6B]"
  by code_simp+

lemma tempo_bytes:
  "(toInt32 500000 div 65536) AND 0xFF = 0x07"
  "(toInt32 500000 div 256) AND 0xFF = 0xA1"
  "toInt32 500000 AND 0xFF = 0x20"
  by code_simp+

lemma block_track:
  "trackBytesOf 500000
     [noteOn 0 p1, noteOn 0 p2, noteOn 0 p3, noteOn 0 p4, noteOn 0 p5,
      noteOff 1920 p1, noteOff 1920 p2, noteOff 1920 p3, noteOff 1920 p4, noteOff 1920 p5]
   = Some [0, 0xFF, 0x51, 0x03, 0x07, 0xA1, 0x20,
           0, 0x90, p1, 100, 0, 0x90, p2, 100, 0, 0x90, p3, 100, 0, 0x90, p4, 100, 0, 0x90, p5, 100,
           0x8F, 0, 0x80, p1, 100, 0, 0x80, p2, 100, 0, 0x80, p3, 100, 0, 0x80, p4, 100,
           0, 0x80, p5, 100,
           0, 0xFF, 0x2F, 0]"
  by (simp add: trackBytesOf_def noteOn_def noteOff_def writeVarInt_zero writeVarInt_whole_note
      tempo_bytes MIDI_NOTE_ON_def MIDI_NOTE_OFF_def MIDI_VELOCITY_def)

lemma char_codes:
  "charCode CHR ''M'' = 0x4D" "charCode CHR ''T'' = 0x54" "charCode CHR ''h'' = 0x68"
  "charCode CHR ''d'' = 0x64" "charCode CHR ''r'' = 0x72" "charCode CHR ''k'' = 0x6B"
  by code_simp+

lemma division_bytes:
  "(toInt32 timeDivision div 2 ^ 8) AND 0xFF = 0x01" "toInt32 timeDivision AND 0xFF = 0xE0"
  by code_simp+

lemma header_bytes: "writeInt16 arr timeDivision = arr @ [0x01, 0xE0]"
  by (simp only: writeInt16_def division_bytes)

lemma length_bytes:
  "(toInt32 52 div 2 ^ 24) AND 0xFF = 0" "(toInt32 52 div 2 ^ 16) AND 0xFF = 0"
  "(toInt32 52 div 2 ^ 8) AND 0xFF = 0" "toInt32 52 AND 0xFF = 52"
  by code_simp+

lemma track_header_bytes: "writeInt32 arr 52 = arr @ [0, 0, 0, 52]"
  by (simp only: writeInt32_def length_bytes)

lemma whole_note_deltas:
  "deltaTimes 0
     [noteOn 0 p1, noteOn 0 p2, noteOn 0 p3, noteOn 0 p4, noteOn 0 p5,
      noteOff 1920 p1, noteOff 1920 p2, noteOff 1920 p3, noteOff 1920 p4, noteOff 1920 p5]
   = [0, 0, 0, 0, 0, 1920, 0, 0, 0, 0]"
  by (simp add: noteOn_def noteOff_def)

lemma sample_note_values:
  "map noteToMidi_export [''C4'', ''E4'', ''G4'', ''C5'', ''E5'']
     = [Some 60, Some 64, Some 67, Some 72, Some 76]"
  by code_simp

lemma block_step:
  assumes voi: "getVoicingForChord (chords e) c instrument vi = Inr voicing"
    and ne: "voicing \<noteq> []"
  shows "chordStep e instrument (blockChord c vi) t =
           Inr (concat (map (blockNote t 1920)
                  (List.map_filter (\<lambda>v. noteToMidi_export (vnote v)) voicing)), t + 1920)"
  using ne by (simp add: chordStep_def blockChord_def voi timeDivision_def)

text \<open>
  C3. One block chord C at 120 beats per minute, on a voicing that sounds C4, E4, G4, C5
  and E5 (in the order of its strings): the file is the 14 header bytes
  4D 54 68 64 00 00 00 06 00 00 00 01 01 E0, then \<open>MTrk\<close> with length 52, the tempo event
  of 500000 microseconds (FF 51 03 07 A1 20), five note-on events (status 90, velocity
  100) at delta 0, five note-off events for the same pitches whose deltas are 1920 and
  then 0, and the end-of-track event FF 2F 00. The five pitches are 60, 64, 67, 72, 76
  in the order of the voicing.
\<close>

theorem C3_single_block_chord_bytes:
  assumes inst: "savedInstrument e = Some instrument" and named: "instrument \<noteq> []"
    and bpm: "activeBpm e = 120"
    and voi: "getVoicingForChord (chords e) ''C'' instrument vi = Inr voicing"
    and sounded: "mset (map vnote voicing) = mset [''C4'', ''E4'', ''G4'', ''C5'', ''E5'']"
  shows "\<exists>p1 p2 p3 p4 p5.
           mset [p1, p2, p3, p4, p5] = mset [60, 64, 67, 72, 76]
         \<and> map_sum id sortByTick (collectEvents e instrument [blockChord ''C'' vi] 0 [])
             = Inr [noteOn 0 p1, noteOn 0 p2, noteOn 0 p3, noteOn 0 p4, noteOn 0 p5,
                    noteOff 1920 p1, noteOff 1920 p2, noteOff 1920 p3, noteOff 1920 p4,
                    noteOff 1920 p5]
         \<and> deltaTimes 0 [noteOn 0 p1, noteOn 0 p2, noteOn 0 p3, noteOn 0 p4, noteOn 0 p5,
                    noteOff 1920 p1, noteOff 1920 p2, noteOff 1920 p3, noteOff 1920 p4,
                    noteOff 1920 p5]
             = [0, 0, 0, 0, 0, 1920, 0, 0, 0, 0]
         \<and> exportProgressionToMidi e [blockChord ''C'' vi] =
             Some (Inr ([0x4D, 0x54, 0x68, 0x64, 0x00, 0x00, 0x00, 0x06, 0x00, 0x00, 0x00, 0x01,
                         0x01, 0xE0]
                      @ [0x4D, 0x54, 0x72, 0x6B, 0x00, 0x00, 0x00, 0x34]
                      @ [0x00, 0xFF, 0x51, 0x03, 0x07, 0xA1, 0x20]
                      @ [0x00, 0x90, word_of_int p1, 100, 0x00, 0x90, word_of_int p2, 100,
                         0x00, 0x90, word_of_int p3, 100, 0x00, 0x90, word_of_int p4, 100,
                         0x00, 0x90, word_of_int p5, 100]
                      @ [0x8F, 0x00, 0x80, word_of_int p1, 100, 0x00, 0x80, word_of_int p2, 100,
                         0x00, 0x80, word_of_int p3, 100, 0x00, 0x80, word_of_int p4, 100,
                         0x00, 0x80, word_of_int p5, 100]
                      @ [0x00, 0xFF, 0x2F, 0x00]))"
proof -
  let ?g = "\<lambda>n. the (noteToMidi_export n)"
  let ?names = "[''C4'', ''E4'', ''G4'', ''C5'', ''E5'']"
  have len: "length voicing = 5"
    using mset_eq_length[OF sounded] by simp
  then obtain v1 v2 v3 v4 v5 where vs: "voicing = [v1, v2, v3, v4, v5]"
    by (auto simp: length_Suc_conv eval_nat_numeral)
  have members: "set (map vnote voicing) = set ?names"
    using mset_eq_setD[OF sounded] .
  have known: "\<forall>n\<in>set ?names. noteToMidi_export n \<noteq> None"
    using sample_note_values by simp
  have allSome: "\<forall>v\<in>set voicing. noteToMidi_export (vnote v) \<noteq> None"
  proof
    fix v assume "v \<in> set voicing"
    then have "vnote v \<in> set (map vnote voicing)" by simp
    with members known show "noteToMidi_export (vnote v) \<noteq> None" by blast
  qed
  have pitches: "List.map_filter (\<lambda>v. noteToMidi_export (vnote v)) voicing
                   = map (\<lambda>v. ?g (vnote v)) voicing"
    using allSome by (rule map_filter_all_Some)
  have "image_mset ?g (mset (map vnote voicing)) = image_mset ?g (mset ?names)"
    by (simp only: sounded)
  then have "mset (map ?g (map vnote voicing)) = mset (map ?g ?names)"
    by (simp only: mset_map)
  moreover have "map ?g ?names = [60, 64, 67, 72, 76]"
    using sample_note_values by simp
  ultimately have ms: "mset (map (\<lambda>v. ?g (vnote v)) voicing) = mset [60, 64, 67, 72, 76]"
    by (simp only: map_map comp_def)
  define p1 where "p1 = ?g (vnote v1)"
  define p2 where "p2 = ?g (vnote v2)"
  define p3 where "p3 = ?g (vnote v3)"
  define p4 where "p4 = ?g (vnote v4)"
  define p5 where "p5 = ?g (vnote v5)"
  have ps: "List.map_filter (\<lambda>v. noteToMidi_export (vnote v)) voicing = [p1, p2, p3, p4, p5]"
    unfolding pitches by (simp add: vs p1_def p2_def p3_def p4_def p5_def)
  have ms': "mset [p1, p2, p3, p4, p5] = mset [60, 64, 67, 72, 76]"
    using ms unfolding pitches[symmetric] ps .
  have ne: "voicing \<noteq> []" using vs by simp
  have events: "collectEvents e instrument [blockChord ''C'' vi] 0 []
                  = Inr (blockNote 0 1920 p1 @ blockNote 0 1920 p2 @ blockNote 0 1920 p3 @
                         blockNote 0 1920 p4 @ blockNote 0 1920 p5)"
    by (simp add: block_step[OF voi ne] ps)
  have sorted: "map_sum id sortByTick (collectEvents e instrument [blockChord ''C'' vi] 0 [])
             = Inr [noteOn 0 p1, noteOn 0 p2, noteOn 0 p3, noteOn 0 p4, noteOn 0 p5,
                    noteOff 1920 p1, noteOff 1920 p2, noteOff 1920 p3, noteOff 1920 p4,
                    noteOff 1920 p5]"
    by (simp only: events map_sum.simps block_sorted)
  have bytes: "exportProgressionToMidi e [blockChord ''C'' vi] =
             Some (Inr ([0x4D, 0x54, 0x68, 0x64, 0x00, 0x00, 0x00, 0x06, 0x00, 0x00, 0x00, 0x01,
                         0x01, 0xE0]
                      @ [0x4D, 0x54, 0x72, 0x6B, 0x00, 0x00, 0x00, 0x34]
                      @ [0x00, 0xFF, 0x51, 0x03, 0x07, 0xA1, 0x20]
                      @ [0x00, 0x90, word_of_int p1, 100, 0x00, 0x90, word_of_int p2, 100,
                         0x00, 0x90, word_of_int p3, 100, 0x00, 0x90, word_of_int p4, 100,
                         0x00, 0x90, word_of_int p5, 100]
                      @ [0x8F, 0x00, 0x80, word_of_int p1, 100, 0x00, 0x80, word_of_int p2, 100,
                         0x00, 0x80, word_of_int p3, 100, 0x00, 0x80, word_of_int p4, 100,
                         0x00, 0x80, word_of_int p5, 100]
                      @ [0x00, 0xFF, 0x2F, 0x00]))"
    unfolding exportProgressionToMidi_def
    by (simp add: inst named bpm tempo_120 events block_sorted block_track header_bytes
        track_header_bytes char_codes Let_def del: collectEvents.simps)
  from ms' sorted whole_note_deltas bytes show ?thesis by blast
qed


lemma sample_high_C:
  "getVoicingForChord (chords sampleEnv) ''C'' ''guitar'' 1 =
     Inr [\<lparr>vnote = ''E5'', stringIndex = 0\<rparr>, \<lparr>vnote = ''C5'', stringIndex = 1\<rparr>,
          \<lparr>vnote = ''G4'', stringIndex = 2\<rparr>, \<lparr>vnote = ''E4'', stringIndex = 3\<rparr>,
          \<lparr>vnote = ''C4'', stringIndex = 4\<rparr>]"
  by code_simp

text \<open>C3 on the C shape at the twelfth fret of the sample catalogue.\<close>

theorem C3_single_block_chord_bytes_witness:
  "savedInstrument sampleEnv = Some ''guitar'' \<and> activeBpm sampleEnv = 120
   \<and> map_sum id (map vnote) (getVoicingForChord (chords sampleEnv) ''C'' ''guitar'' 1)
        = Inr [''E5'', ''C5'', ''G4'', ''E4'', ''C4'']
   \<and> (\<exists>p1 p2 p3 p4 p5.
           mset [p1, p2, p3, p4, p5] = mset [60, 64, 67, 72, 76]
         \<and> exportProgressionToMidi sampleEnv [blockChord ''C'' 1] =
             Some (Inr ([0x4D, 0x54, 0x68, 0x64, 0x00, 0x00, 0x00, 0x06, 0x00, 0x00, 0x00, 0x01,
                         0x01, 0xE0]
                      @ [0x4D, 0x54, 0x72, 0x6B, 0x00, 0x00, 0x00, 0x34]
                      @ [0x00, 0xFF, 0x51, 0x03, 0x07, 0xA1, 0x20]
                      @ [0x00, 0x90, word_of_int p1, 100, 0x00, 0x90, word_of_int p2, 100,
                         0x00, 0x90, word_of_int p3, 100, 0x00, 0x90, word_of_int p4, 100,
                         0x00, 0x90, word_of_int p5, 100]
                      @ [0x8F, 0x00, 0x80, word_of_int p1, 100, 0x00, 0x80, word_of_int p2, 100,
                         0x00, 0x80, word_of_int p3, 100, 0x00, 0x80, word_of_int p4, 100,
                         0x00, 0x80, word_of_int p5, 100]
                      @ [0x00, 0xFF, 0x2F, 0x00])))"
proof -
  let ?voicing = "[\<lparr>vnote = ''E5'', stringIndex = 0\<rparr>, \<lparr>vnote = ''C5'', stringIndex = 1\<rparr>,
          \<lparr>vnote = ''G4'', stringIndex = 2\<rparr>, \<lparr>vnote = ''E4'', stringIndex = 3\<rparr>,
          \<lparr>vnote = ''C4'', stringIndex = 4::int\<rparr>]"
  have i: "savedInstrument sampleEnv = Some ''guitar''" by (simp add: sampleEnv_def)
  have n: "''guitar'' \<noteq> []" by simp
  have b: "activeBpm sampleEnv = 120" by (simp add: sampleEnv_def)
  have m: "mset (map vnote ?voicing) = mset [''C4'', ''E4'', ''G4'', ''C5'', ''E5'']"
    by (simp add: add_mset_commute)
  have v: "map_sum id (map vnote) (getVoicingForChord (chords sampleEnv) ''C'' ''guitar'' 1)
        = Inr [''E5'', ''C5'', ''G4'', ''E4'', ''C4'']"
    by (simp add: sample_high_C)
  from C3_single_block_chord_bytes[OF i n b sample_high_C m] i b v
  show ?thesis by blast
qed

section \<open>The event stream of the serialiser\<close>








































end
